theory Spec2Isabelle
  imports Complex_Main "HOL-Library.AList"
begin

section \<open>Common data\<close>

text \<open>
  Every \<^verbatim>\<open>throw new Error(...)\<close> of the sources is a value of one datatype. The Japanese
  message texts are named after the constants that hold them in the sources.
  \<^verbatim>\<open>TypeError\<close> is the exception the JavaScript engine itself raises on a property
  access on \<^verbatim>\<open>null\<close>/\<^verbatim>\<open>undefined\<close> or on a call of something that is no function.
\<close>

datatype error =
    CONTACT_REQUIRED
  | NO_CONTACTS
  | DUPLICATE_PHONE
  | MAX_CONTACTS_EXCEEDED
  | INVALID_PHONE_FORMAT
  | INVALID_PHONES_INCLUDED "string list"
  | TypeError
  | INVALID_LOCATION_FORMAT
  | INVALID_PHONE_NUMBER string
  | INVALID_PHONE_NUMBER_FORMAT

text \<open>Wall-clock instants and durations, in milliseconds (\<^verbatim>\<open>Date.now()\<close>).\<close>

type_synonym time = int

text \<open>
  Strings are lists of 8-bit characters, so the model covers the JavaScript strings whose
  code units are below 256. On those, the regular expression class \<^verbatim>\<open>\s\<close> and
  \<^verbatim>\<open>String.prototype.trim\<close> know the seven white space characters below.
\<close>

definition isWhiteSpace :: "char \<Rightarrow> bool" where
  "isWhiteSpace c =
     (c = CHR 0x09 \<or> c = CHR 0x0A \<or> c = CHR 0x0B \<or> c = CHR 0x0C \<or> c = CHR 0x0D \<or>
      c = CHR 0x20 \<or> c = CHR 0xA0)"

definition isDigit :: "char \<Rightarrow> bool" where
  "isDigit c = (c = CHR ''0'' \<or> c = CHR ''1'' \<or> c = CHR ''2'' \<or> c = CHR ''3'' \<or> c = CHR ''4'' \<or>
                c = CHR ''5'' \<or> c = CHR ''6'' \<or> c = CHR ''7'' \<or> c = CHR ''8'' \<or> c = CHR ''9'')"

text \<open>\<^verbatim>\<open>s.includes(t)\<close>: \<open>t\<close> occurs in \<open>s\<close> as a contiguous block.\<close>

fun str_includes :: "string \<Rightarrow> string \<Rightarrow> bool" where
  "str_includes [] t = (t = [])"
| "str_includes (c # s) t = (take (length t) (c # s) = t \<or> str_includes s t)"

text \<open>\<^verbatim>\<open>s.trim()\<close>: white space removed at both ends.\<close>

definition trim :: "string \<Rightarrow> string" where
  "trim s = rev (dropWhile isWhiteSpace (rev (dropWhile isWhiteSpace s)))"

text \<open>
  A JavaScript \<^verbatim>\<open>Map\<close> with string keys: an association list in insertion order with
  distinct keys. \<^verbatim>\<open>set\<close> replaces the value of a key that is present where it stands
  and appends a new key; \<^verbatim>\<open>size\<close> is the number of keys.
\<close>

type_synonym 'v js_map = "(string \<times> 'v) list"

definition Map_has :: "'v js_map \<Rightarrow> string \<Rightarrow> bool" where
  "Map_has m k = (map_of m k \<noteq> None)"

definition Map_get :: "'v js_map \<Rightarrow> string \<Rightarrow> 'v option" where
  "Map_get m k = map_of m k"

definition Map_set :: "'v js_map \<Rightarrow> string \<Rightarrow> 'v \<Rightarrow> 'v js_map" where
  "Map_set m k v = AList.update k v m"

definition Map_delete :: "'v js_map \<Rightarrow> string \<Rightarrow> 'v js_map" where
  "Map_delete m k = AList.delete k m"

definition Map_size :: "'v js_map \<Rightarrow> nat" where
  "Map_size m = length m"

section \<open>ContactService (src/EmergencyCall/src/services/ContactService.js)\<close>

text \<open>
  What a caller passes as a contact. \<open>Nullish\<close> is \<^verbatim>\<open>null\<close> or \<^verbatim>\<open>undefined\<close>; \<open>Obj\<close>
  is an object with its three properties, each \<open>None\<close> when the property is absent or
  (for \<open>phone_in\<close>) no string. A truthy primitive has none of the properties and fails
  the same checks as \<open>Obj\<close> with three absent properties.
\<close>

record contact_fields =
  name_in :: "string option"
  phone_in :: "string option"
  priority_in :: "string option"

datatype contact_input = Nullish | Obj contact_fields

record contact =
  name :: string
  phone :: string
  addedAt :: time
  priority :: string

record contact_service =
  contactsByPhone :: "contact js_map"
  contactOrder :: "contact list"

record validation =
  isValid :: bool
  contactCount :: nat
  validContacts :: nat

definition MAX_CONTACTS :: nat where
  "MAX_CONTACTS = 10"

text \<open>The default name is a Japanese literal ("name not set") in the source.\<close>

definition NAME_NOT_SET :: string where
  "NAME_NOT_SET = ''NAME_NOT_SET''"

definition ContactService_new :: contact_service where
  "ContactService_new = \<lparr>contactsByPhone = [], contactOrder = []\<rparr>"

text \<open>\<^verbatim>\<open>phone.replace(/[-\s()]/g, '')\<close>\<close>

definition normalizePhoneNumber :: "string \<Rightarrow> string" where
  "normalizePhoneNumber p =
     filter (\<lambda>c. \<not> (c = CHR ''-'' \<or> isWhiteSpace c \<or> c = CHR ''('' \<or> c = CHR '')'')) p"

text \<open>\<^verbatim>\<open>\d{9,10}\<close> up to the end of the input.\<close>

definition digits_9_10 :: "string \<Rightarrow> bool" where
  "digits_9_10 r = (list_all isDigit r \<and> (length r = 9 \<or> length r = 10))"

text \<open>\<^verbatim>\<open>/^(0\d{9,10}|(\+81|81)\d{9,10})$/.test(normalizedPhone)\<close>\<close>

definition isValidPhoneNumber :: "string \<Rightarrow> bool" where
  "isValidPhoneNumber p =
     (let normalizedPhone = normalizePhoneNumber p in
        (take 1 normalizedPhone = ''0'' \<and> digits_9_10 (drop 1 normalizedPhone)) \<or>
        (take 3 normalizedPhone = ''+81'' \<and> digits_9_10 (drop 3 normalizedPhone)) \<or>
        (take 2 normalizedPhone = ''81'' \<and> digits_9_10 (drop 2 normalizedPhone)))"

definition getContactCount :: "contact_service \<Rightarrow> nat" where
  "getContactCount s = Map_size (contactsByPhone s)"

definition hasEmergencyContacts :: "contact_service \<Rightarrow> bool" where
  "hasEmergencyContacts s = (Map_size (contactsByPhone s) > 0)"

definition getEmergencyContacts :: "contact_service \<Rightarrow> contact list" where
  "getEmergencyContacts s = contactOrder s"

definition findContactByPhone :: "contact_service \<Rightarrow> string \<Rightarrow> contact option" where
  "findContactByPhone s p = Map_get (contactsByPhone s) p"

fun validateContactFormat :: "contact_input \<Rightarrow> error + unit" where
  "validateContactFormat Nullish = Inl CONTACT_REQUIRED"
| "validateContactFormat (Obj c) =
     (case phone_in c of
        None \<Rightarrow> Inl CONTACT_REQUIRED
      | Some p \<Rightarrow>
          if p = [] then Inl CONTACT_REQUIRED
          else if isValidPhoneNumber p then Inr ()
          else Inl INVALID_PHONE_FORMAT)"

definition checkContactLimits :: "contact_service \<Rightarrow> error + unit" where
  "checkContactLimits s =
     (if getContactCount s \<ge> MAX_CONTACTS then Inl MAX_CONTACTS_EXCEEDED else Inr ())"

definition checkDuplicatePhone :: "contact_service \<Rightarrow> string \<Rightarrow> error + unit" where
  "checkDuplicatePhone s p =
     (if Map_has (contactsByPhone s) p then Inl DUPLICATE_PHONE else Inr ())"

text \<open>
  \<^verbatim>\<open>_normalizeContact\<close>: reading \<^verbatim>\<open>contact.name\<close> of \<^verbatim>\<open>null\<close>/\<^verbatim>\<open>undefined\<close> raises, and so
  does \<^verbatim>\<open>phone.replace\<close> when the phone is no string. \<^verbatim>\<open>x || d\<close> takes \<open>d\<close> for an
  absent or empty \<open>x\<close>.
\<close>

definition or_default :: "string option \<Rightarrow> string \<Rightarrow> string" where
  "or_default x d = (case x of None \<Rightarrow> d | Some v \<Rightarrow> if v = [] then d else v)"

fun normalizeContact :: "time \<Rightarrow> contact_input \<Rightarrow> error + contact" where
  "normalizeContact now Nullish = Inl TypeError"
| "normalizeContact now (Obj c) =
     (case phone_in c of
        None \<Rightarrow> Inl TypeError
      | Some p \<Rightarrow>
          Inr \<lparr>name = or_default (name_in c) NAME_NOT_SET,
               phone = normalizePhoneNumber p,
               addedAt = now,
               priority = or_default (priority_in c) ''normal''\<rparr>)"

definition addValidatedContact ::
  "time \<Rightarrow> contact_input \<Rightarrow> contact_service \<Rightarrow> error + contact_service" where
  "addValidatedContact now c s =
     (case normalizeContact now c of
        Inl e \<Rightarrow> Inl e
      | Inr normalizedContact \<Rightarrow>
          Inr \<lparr>contactsByPhone =
                 Map_set (contactsByPhone s) (phone normalizedContact) normalizedContact,
               contactOrder = contactOrder s @ [normalizedContact]\<rparr>)"

text \<open>
  \<^verbatim>\<open>addEmergencyContact\<close>: format, limit and duplicate checks in the source's order. The
  duplicate check receives \<^verbatim>\<open>contact.phone\<close> as the caller wrote it. After the format
  check the contact is an object with a string phone; the two \<open>TypeError\<close> branches
  only make the case distinctions complete.
\<close>

fun addEmergencyContact ::
  "time \<Rightarrow> contact_input \<Rightarrow> contact_service \<Rightarrow> error + contact_service" where
  "addEmergencyContact now c s =
     (case validateContactFormat c of
        Inl e \<Rightarrow> Inl e
      | Inr _ \<Rightarrow>
          (case checkContactLimits s of
             Inl e \<Rightarrow> Inl e
           | Inr _ \<Rightarrow>
               (case c of
                  Nullish \<Rightarrow> Inl TypeError
                | Obj f \<Rightarrow>
                    (case phone_in f of
                       None \<Rightarrow> Inl TypeError
                     | Some p \<Rightarrow>
                         (case checkDuplicatePhone s p of
                            Inl e \<Rightarrow> Inl e
                          | Inr _ \<Rightarrow> addValidatedContact now c s)))))"

definition clearAllContacts :: "contact_service \<Rightarrow> contact_service" where
  "clearAllContacts s = \<lparr>contactsByPhone = [], contactOrder = []\<rparr>"

text \<open>
  \<^verbatim>\<open>setEmergencyContacts\<close>: the argument is \<open>None\<close> when it is no array. The loop body is
  \<^verbatim>\<open>try { this._addValidatedContact(contact) } catch (error) { console.warn(...) }\<close>:
  an entry whose insertion raises is skipped.
\<close>

fun addAll :: "time \<Rightarrow> contact_input list \<Rightarrow> contact_service \<Rightarrow> contact_service" where
  "addAll now [] s = s"
| "addAll now (c # cs) s =
     (case addValidatedContact now c s of
        Inl e \<Rightarrow> addAll now cs s
      | Inr s' \<Rightarrow> addAll now cs s')"

definition setEmergencyContacts ::
  "time \<Rightarrow> contact_input list option \<Rightarrow> contact_service \<Rightarrow> contact_service" where
  "setEmergencyContacts now contacts s =
     addAll now (case contacts of None \<Rightarrow> [] | Some cs \<Rightarrow> cs) (clearAllContacts s)"

definition removeEmergencyContact :: "string \<Rightarrow> contact_service \<Rightarrow> bool \<times> contact_service" where
  "removeEmergencyContact p s =
     (if \<not> Map_has (contactsByPhone s) p then (False, s)
      else (True, \<lparr>contactsByPhone = Map_delete (contactsByPhone s) p,
                   contactOrder = filter (\<lambda>c. phone c \<noteq> p) (contactOrder s)\<rparr>))"

definition validateEmergencyContacts :: "contact_service \<Rightarrow> error + validation" where
  "validateEmergencyContacts s =
     (if \<not> hasEmergencyContacts s then Inl NO_CONTACTS
      else
        (let invalidContacts = filter (\<lambda>c. \<not> isValidPhoneNumber (phone c)) (contactOrder s) in
           if length invalidContacts > 0
           then Inl (INVALID_PHONES_INCLUDED (map phone invalidContacts))
           else Inr \<lparr>isValid = True,
                     contactCount = getContactCount s,
                     validContacts = getContactCount s - length invalidContacts\<rparr>))"

section \<open>TestableLocationService (src/EmergencyCall/src/services/TestableLocationService.js)\<close>

text \<open>
  A JavaScript number is a double: a finite value, taken here as the real number it
  denotes, one of the two infinities, or NaN. Every comparison with NaN is false.
  \<open>NonNumber\<close> stands for any value whose \<^verbatim>\<open>typeof\<close> is not \<^verbatim>\<open>'number'\<close>, an absent
  property included.
\<close>

datatype jsnumber = Finite real | PosInfinity | NegInfinity | NaN

datatype jsvalue = Number jsnumber | NonNumber

fun num_ge :: "jsnumber \<Rightarrow> real \<Rightarrow> bool" where
  "num_ge (Finite x) c = (x \<ge> c)"
| "num_ge PosInfinity c = True"
| "num_ge NegInfinity c = False"
| "num_ge NaN c = False"

fun num_le :: "jsnumber \<Rightarrow> real \<Rightarrow> bool" where
  "num_le (Finite x) c = (x \<le> c)"
| "num_le PosInfinity c = False"
| "num_le NegInfinity c = True"
| "num_le NaN c = False"

text \<open>
  A location object with the properties the services read or copy. The argument of a
  setter is \<open>Falsy\<close> (\<^verbatim>\<open>null\<close>, \<^verbatim>\<open>undefined\<close> and the other falsy values) or a truthy
  value with its properties; a truthy primitive has \<open>NonNumber\<close> everywhere.
\<close>

record location =
  latitude :: jsvalue
  longitude :: jsvalue
  accuracy :: jsvalue
  fixTimestamp :: jsvalue

datatype location_input = Falsy | Truthy location

record location_service =
  currentLocation :: "location option"
  lastKnownLocation :: "location option"
  isLocationUnavailable :: bool

definition TestableLocationService_new :: location_service where
  "TestableLocationService_new =
     \<lparr>currentLocation = None, lastKnownLocation = None, isLocationUnavailable = False\<rparr>"

definition isValidCoordinate :: "jsnumber \<Rightarrow> jsnumber \<Rightarrow> bool" where
  "isValidCoordinate lat lng =
     (num_ge lat (-90) \<and> num_le lat 90 \<and> num_ge lng (-180) \<and> num_le lng 180)"

definition isValidLocationData :: "location \<Rightarrow> bool" where
  "isValidLocationData l =
     (case latitude l of
        NonNumber \<Rightarrow> False
      | Number lat \<Rightarrow>
          (case longitude l of
             NonNumber \<Rightarrow> False
           | Number lng \<Rightarrow> isValidCoordinate lat lng))"

fun validateLocation :: "location_input \<Rightarrow> error + location option" where
  "validateLocation Falsy = Inr None"
| "validateLocation (Truthy l) =
     (if \<not> isValidLocationData l then Inl INVALID_LOCATION_FORMAT else Inr (Some l))"

definition updateLastKnownLocation :: "location \<Rightarrow> location_service \<Rightarrow> location_service" where
  "updateLastKnownLocation l s = s\<lparr>lastKnownLocation := Some l\<rparr>"

text \<open>
  The two setters wrap their body in \<^verbatim>\<open>try { ... } catch (error) { ...; slot = null }\<close>.
  The result is \<open>Inr\<close> of the new state when the call returns and would be \<open>Inl\<close> of
  the exception if one left the method.
\<close>

definition setCurrentLocation :: "location_input \<Rightarrow> location_service \<Rightarrow> error + location_service" where
  "setCurrentLocation l s =
     (case validateLocation l of
        Inr validatedLocation \<Rightarrow>
          (case validatedLocation of
             None \<Rightarrow> Inr (s\<lparr>currentLocation := None\<rparr>)
           | Some v \<Rightarrow> Inr (updateLastKnownLocation v (s\<lparr>currentLocation := Some v\<rparr>)))
      | Inl e \<Rightarrow> Inr (s\<lparr>currentLocation := None\<rparr>))"

definition setLastKnownLocation :: "location_input \<Rightarrow> location_service \<Rightarrow> error + location_service" where
  "setLastKnownLocation l s =
     (case validateLocation l of
        Inr validatedLocation \<Rightarrow> Inr (s\<lparr>lastKnownLocation := validatedLocation\<rparr>)
      | Inl e \<Rightarrow> Inr (s\<lparr>lastKnownLocation := None\<rparr>))"

definition setLocationUnavailable :: "bool \<Rightarrow> location_service \<Rightarrow> location_service" where
  "setLocationUnavailable unavailable s = s\<lparr>isLocationUnavailable := unavailable\<rparr>"

definition getCurrentLocation :: "location_service \<Rightarrow> location option" where
  "getCurrentLocation s = (if isLocationUnavailable s then None else currentLocation s)"

definition getLastKnownLocation :: "location_service \<Rightarrow> location option" where
  "getLastKnownLocation s = lastKnownLocation s"

text \<open>\<^verbatim>\<open>x && this._isValidLocationData(x)\<close>\<close>

definition presentAndValid :: "location option \<Rightarrow> bool" where
  "presentAndValid x = (case x of None \<Rightarrow> False | Some l \<Rightarrow> isValidLocationData l)"

definition getBestAvailableLocation :: "location_service \<Rightarrow> location option" where
  "getBestAvailableLocation s =
     (let current = getCurrentLocation s in
        if presentAndValid current then current
        else
          (let lastKnown = getLastKnownLocation s in
             if presentAndValid lastKnown then lastKnown else None))"

definition LocationService_reset :: "location_service \<Rightarrow> location_service" where
  "LocationService_reset s = TestableLocationService_new"

text \<open>What the data model asks of a cache: each slot that holds a location holds a valid one.\<close>

definition storedLocationsValid :: "location_service \<Rightarrow> bool" where
  "storedLocationsValid s =
     ((case currentLocation s of None \<Rightarrow> True | Some l \<Rightarrow> isValidLocationData l) \<and>
      (case lastKnownLocation s of None \<Rightarrow> True | Some l \<Rightarrow> isValidLocationData l))"

section \<open>PowerButtonService (src/EmergencyCall/src/services/PowerButtonService.js)\<close>

text \<open>
  The pending \<^verbatim>\<open>setTimeout\<close> handle is modelled by the instant at which its callback is
  due; \<open>None\<close> is \<^verbatim>\<open>null\<close>. The service does not await the emergency service, so the
  model counts the calls of \<^verbatim>\<open>sendEmergencyNotification()\<close> it issues (on the injected
  service, or on the singleton of the repository's EmergencyService module).
\<close>

datatype States = IDLE | COUNTING | TRIGGERED

record power_button_service =
  pressCount :: nat
  pressTimeout :: "time option"
  currentState :: States
  notificationCalls :: nat

definition PRESS_TIMEOUT_MS :: time where
  "PRESS_TIMEOUT_MS = 3000"

definition REQUIRED_PRESS_COUNT :: nat where
  "REQUIRED_PRESS_COUNT = 3"

definition PowerButtonService_new :: power_button_service where
  "PowerButtonService_new =
     \<lparr>pressCount = 0, pressTimeout = None, currentState = IDLE, notificationCalls = 0\<rparr>"

definition incrementPressCount :: "power_button_service \<Rightarrow> power_button_service" where
  "incrementPressCount s = s\<lparr>pressCount := pressCount s + 1, currentState := COUNTING\<rparr>"

definition clearExistingTimeout :: "power_button_service \<Rightarrow> power_button_service" where
  "clearExistingTimeout s = s\<lparr>pressTimeout := None\<rparr>"

definition shouldTriggerEmergency :: "power_button_service \<Rightarrow> bool" where
  "shouldTriggerEmergency s = (pressCount s = REQUIRED_PRESS_COUNT)"

definition isValidPressCount :: "power_button_service \<Rightarrow> bool" where
  "isValidPressCount s = (pressCount s < REQUIRED_PRESS_COUNT)"

definition startTimeout :: "time \<Rightarrow> power_button_service \<Rightarrow> power_button_service" where
  "startTimeout now s = s\<lparr>pressTimeout := Some (now + PRESS_TIMEOUT_MS)\<rparr>"

definition triggerEmergency :: "power_button_service \<Rightarrow> power_button_service" where
  "triggerEmergency s =
     (clearExistingTimeout (s\<lparr>currentState := TRIGGERED\<rparr>))
       \<lparr>notificationCalls := notificationCalls s + 1\<rparr>"

definition resetToIdle :: "power_button_service \<Rightarrow> power_button_service" where
  "resetToIdle s = clearExistingTimeout (s\<lparr>pressCount := 0, currentState := IDLE\<rparr>)"

text \<open>A press of the power button at the instant \<open>now\<close>.\<close>

definition triggerPowerButton :: "time \<Rightarrow> power_button_service \<Rightarrow> power_button_service" where
  "triggerPowerButton now s =
     (if currentState s = TRIGGERED then s
      else
        (let s' = clearExistingTimeout (incrementPressCount s) in
           if shouldTriggerEmergency s' then triggerEmergency s'
           else if isValidPressCount s' then startTimeout now s'
           else s'))"

text \<open>
  The event loop at the instant \<open>now\<close>: a pending timeout that is due runs its callback,
  \<^verbatim>\<open>() => { this._resetToIdle() }\<close>.
\<close>

definition runPressTimeout :: "time \<Rightarrow> power_button_service \<Rightarrow> power_button_service" where
  "runPressTimeout now s =
     (case pressTimeout s of
        None \<Rightarrow> s
      | Some due \<Rightarrow> if due \<le> now then resetToIdle s else s)"

text \<open>The states a service reaches from its construction by presses and the passing of time.\<close>

datatype pb_event = Press time | Tick time

fun pb_step :: "power_button_service \<Rightarrow> pb_event \<Rightarrow> power_button_service" where
  "pb_step s (Press now) = triggerPowerButton now (runPressTimeout now s)"
| "pb_step s (Tick now) = runPressTimeout now s"

definition pb_run :: "pb_event list \<Rightarrow> power_button_service" where
  "pb_run evs = foldl pb_step PowerButtonService_new evs"

text \<open>
  What holds in every reachable state: the count is 3 with no timeout pending in
  \<open>TRIGGERED\<close>, and below 3 elsewhere.
\<close>

definition pb_inv :: "power_button_service \<Rightarrow> bool" where
  "pb_inv s =
     (if currentState s = TRIGGERED then pressCount s = 3 \<and> pressTimeout s = None
      else pressCount s < 3)"

section \<open>EmergencyConnect core logic (src/unnamed/part_000)\<close>

text \<open>
  The module keeps one global \<^verbatim>\<open>state\<close> object. The record below holds the properties the
  SOS functions read or write, and with them the part of the JavaScript runtime they act
  on: the clock (\<^verbatim>\<open>Date.now()\<close>), the pending \<^verbatim>\<open>setTimeout\<close> callbacks of
  \<^verbatim>\<open>initiateSOS\<close> as pairs of a handle and the instant the callback is due, and the next
  fresh handle. Handles are positive, hence truthy. \<open>triggerCalls\<close> counts the calls of
  \<^verbatim>\<open>SOSService.trigger\<close>; it is an observation of the run, no property of the source
  object. The registered UI callbacks are taken as observers that do not call back into
  the module.
\<close>

record button_config =
  cfg_button :: string
  cfg_action :: string

record registered_contact =
  contact_id :: string
  contact_name :: string
  contact_phone :: string

record sos_state =
  initiated :: bool
  sent :: bool
  sos_timestamp :: "time option"
  emergencyOverride :: bool
  crashResistant :: bool

record ui_state =
  showCancelButton :: bool
  cancelButtonVisible :: bool

record button_press =
  button :: string
  timestamp :: time

record emergency_state =
  buttonConfig :: "button_config option"
  emergencyContacts :: "registered_contact list"
  appState :: string
  networkStatus :: bool
  sosState :: sos_state
  uiState :: ui_state
  buttonPresses :: "button_press list"
  countdownTimer :: "nat option"
  clock :: time
  timers :: "(nat \<times> time) list"
  nextTimerId :: nat
  triggerCalls :: nat

definition COUNTDOWN_DURATION :: time where
  "COUNTDOWN_DURATION = 3000"

definition MAX_BUTTON_INTERVAL :: time where
  "MAX_BUTTON_INTERVAL = 5000"

definition createInitialSOSState :: sos_state where
  "createInitialSOSState =
     \<lparr>initiated = False, sent = False, sos_timestamp = None,
      emergencyOverride = False, crashResistant = False\<rparr>"

definition createInitialUIState :: ui_state where
  "createInitialUIState = \<lparr>showCancelButton = False, cancelButtonVisible = False\<rparr>"

text \<open>The state after \<^verbatim>\<open>reset()\<close>, in a runtime whose clock shows \<open>t\<close> and has no timer pending.\<close>

definition EmergencyState_new :: "time \<Rightarrow> emergency_state" where
  "EmergencyState_new t =
     \<lparr>buttonConfig = None, emergencyContacts = [], appState = ''active'',
      networkStatus = True, sosState = createInitialSOSState,
      uiState = createInitialUIState, buttonPresses = [], countdownTimer = None,
      clock = t, timers = [], nextTimerId = 1, triggerCalls = 0\<rparr>"

subsection \<open>Utils\<close>

fun calculateIntervals :: "time list \<Rightarrow> time list" where
  "calculateIntervals (a # b # ts) = (b - a) # calculateIntervals (b # ts)"
| "calculateIntervals ts = []"

definition hasIrregularInterval :: "time list \<Rightarrow> time \<Rightarrow> bool" where
  "hasIrregularInterval intervals maxInterval = list_ex (\<lambda>interval. interval \<ge> maxInterval) intervals"

subsection \<open>EmergencyContactManager, SystemStateManager, SOSButtonManager\<close>

definition hasContacts :: "emergency_state \<Rightarrow> bool" where
  "hasContacts s = (length (emergencyContacts s) > 0)"

definition setNetworkStatus :: "bool \<Rightarrow> emergency_state \<Rightarrow> emergency_state" where
  "setNetworkStatus status s = s\<lparr>networkStatus := status\<rparr>"

definition isValidButton :: "string \<Rightarrow> bool" where
  "isValidButton b = (b = ''volumeUp'' \<or> b = ''volumeDown'' \<or> b = ''power'')"

definition isValidAction :: "string \<Rightarrow> bool" where
  "isValidAction a = (a = ''triplePress'' \<or> a = ''longPress'' \<or> a = ''quintupletPress'')"

datatype config_error = INVALID_BUTTON_CONFIG

definition setButtonConfig :: "button_config \<Rightarrow> emergency_state \<Rightarrow> config_error + emergency_state" where
  "setButtonConfig config s =
     (if \<not> (isValidButton (cfg_button config) \<and> isValidAction (cfg_action config))
      then Inl INVALID_BUTTON_CONFIG
      else Inr (s\<lparr>buttonConfig := Some config\<rparr>))"

subsection \<open>SOSService\<close>

datatype trigger_failure = NO_EMERGENCY_CONTACTS | NETWORK_DISCONNECTED

record trigger_success =
  notifiedContacts :: "registered_contact list"
  backgroundExecution :: bool

text \<open>
  \<^verbatim>\<open>SOSService.trigger\<close> has no \<^verbatim>\<open>await\<close>: its body runs to the end when it is called.
  A failure is a returned result object, no exception.
\<close>

definition trigger :: "emergency_state \<Rightarrow> (trigger_failure + trigger_success) \<times> emergency_state" where
  "trigger s0 =
     (let s = s0\<lparr>triggerCalls := triggerCalls s0 + 1\<rparr> in
        if \<not> hasContacts s then (Inl NO_EMERGENCY_CONTACTS, s)
        else if \<not> networkStatus s then (Inl NETWORK_DISCONNECTED, s)
        else
          (Inr \<lparr>notifiedContacts = emergencyContacts s,
                backgroundExecution = (appState s = ''background'')\<rparr>,
           s\<lparr>sosState := (sosState s)\<lparr>sent := True, sos_timestamp := Some (clock s)\<rparr>\<rparr>))"

subsection \<open>MisFirePreventionService\<close>

text \<open>
  \<^verbatim>\<open>initiateSOS\<close> returns \<^verbatim>\<open>{countdownStarted: true, countdownDuration: 3}\<close> at once; the
  model returns the state it leaves behind.
\<close>

definition initiateSOS :: "emergency_state \<Rightarrow> emergency_state" where
  "initiateSOS s =
     s\<lparr>sosState := (sosState s)\<lparr>initiated := True\<rparr>,
       uiState := (uiState s)\<lparr>showCancelButton := True, cancelButtonVisible := True\<rparr>,
       timers := timers s @ [(nextTimerId s, clock s + COUNTDOWN_DURATION)],
       countdownTimer := Some (nextTimerId s),
       nextTimerId := nextTimerId s + 1\<rparr>"

text \<open>\<^verbatim>\<open>clearTimeout(handle)\<close>: the callback with this handle is no longer pending.\<close>

definition clearTimeout :: "nat \<Rightarrow> (nat \<times> time) list \<Rightarrow> (nat \<times> time) list" where
  "clearTimeout h ts = filter (\<lambda>t. fst t \<noteq> h) ts"

text \<open>\<^verbatim>\<open>cancel\<close> returns \<^verbatim>\<open>{success: true, sosCancelled: true}\<close> on every path.\<close>

definition cancel :: "emergency_state \<Rightarrow> emergency_state" where
  "cancel s =
     (let s1 = (case countdownTimer s of
                  None \<Rightarrow> s
                | Some h \<Rightarrow> s\<lparr>timers := clearTimeout h (timers s), countdownTimer := None\<rparr>)
      in s1\<lparr>sosState := (sosState s1)\<lparr>initiated := False\<rparr>,
            uiState := (uiState s1)\<lparr>showCancelButton := False, cancelButtonVisible := False\<rparr>\<rparr>)"

text \<open>The callback of the countdown: \<^verbatim>\<open>() => { if (state.sosState.initiated) SOSService.trigger() }\<close>.\<close>

definition countdownCallback :: "emergency_state \<Rightarrow> emergency_state" where
  "countdownCallback s = (if initiated (sosState s) then snd (trigger s) else s)"

text \<open>
  The passing of \<open>d\<close> milliseconds with no call from outside: the pending callbacks due
  by then run, each at the instant it is due, in the order they were scheduled (which is
  the order of their due times, since every countdown lasts the same time and the clock
  never goes back). A callback that has run is no longer pending.
\<close>

fun runTimers :: "time \<Rightarrow> (nat \<times> time) list \<Rightarrow> emergency_state \<Rightarrow> emergency_state" where
  "runTimers limit [] s = s"
| "runTimers limit (t # ts) s =
     (if snd t \<le> limit
      then runTimers limit ts
             (countdownCallback
                (s\<lparr>clock := max (clock s) (snd t), timers := clearTimeout (fst t) (timers s)\<rparr>))
      else runTimers limit ts s)"

definition elapse :: "time \<Rightarrow> emergency_state \<Rightarrow> emergency_state" where
  "elapse d s = (runTimers (clock s + d) (timers s) s)\<lparr>clock := clock s + d\<rparr>"

datatype validation_reason = NO_BUTTON_CONFIG | NO_BUTTON_PRESS | DIFFERENT_BUTTON | IRREGULAR_PATTERN

record sequence_validation =
  isValidSOS :: bool
  isFalsePositive :: "bool option"
  reason :: "validation_reason option"

definition validatePressIntervals :: "emergency_state \<Rightarrow> sequence_validation" where
  "validatePressIntervals s =
     (if length (buttonPresses s) < 2
      then \<lparr>isValidSOS = True, isFalsePositive = Some False, reason = None\<rparr>
      else
        (let timestamps = map timestamp (buttonPresses s);
             intervals = calculateIntervals timestamps
         in if hasIrregularInterval intervals MAX_BUTTON_INTERVAL
            then \<lparr>isValidSOS = False, isFalsePositive = Some True, reason = Some IRREGULAR_PATTERN\<rparr>
            else \<lparr>isValidSOS = True, isFalsePositive = Some False, reason = None\<rparr>))"

definition validateButtonSequence :: "emergency_state \<Rightarrow> sequence_validation" where
  "validateButtonSequence s =
     (case buttonConfig s of
        None \<Rightarrow> \<lparr>isValidSOS = False, isFalsePositive = None, reason = Some NO_BUTTON_CONFIG\<rparr>
      | Some config \<Rightarrow>
          if length (buttonPresses s) = 0
          then \<lparr>isValidSOS = False, isFalsePositive = None, reason = Some NO_BUTTON_PRESS\<rparr>
          else if button (last (buttonPresses s)) \<noteq> cfg_button config
          then \<lparr>isValidSOS = False, isFalsePositive = None, reason = Some DIFFERENT_BUTTON\<rparr>
          else validatePressIntervals s)"

subsection \<open>ButtonEventHandler\<close>

text \<open>The first half of \<^verbatim>\<open>handleVolumeButtonPress\<close>: record the press, keep the last 10 s.\<close>

definition recordPress :: "string \<Rightarrow> emergency_state \<Rightarrow> emergency_state" where
  "recordPress b s =
     (let timestamp' = clock s;
          cutoffTime = timestamp' - 10000
      in s\<lparr>buttonPresses :=
             filter (\<lambda>press. timestamp press > cutoffTime)
               (buttonPresses s @ [\<lparr>button = b, timestamp = timestamp'\<rparr>])\<rparr>)"

definition handleVolumeButtonPress :: "string \<Rightarrow> emergency_state \<Rightarrow> emergency_state" where
  "handleVolumeButtonPress b s =
     (let s1 = recordPress b s;
          validation = validateButtonSequence s1
      in if isValidSOS validation then initiateSOS s1 else s1)"

section \<open>EmergencyService (src/unnamed/part_002)\<close>

text \<open>
  The alert text is a Japanese literal in the source. The random suffix of a message id
  is an input of the model.
\<close>

definition EMERGENCY_ALERT :: string where
  "EMERGENCY_ALERT = ''EMERGENCY_ALERT''"

datatype SendResult = SUCCESS | FAILED | INVALID_PHONE | NETWORK_ERROR

record message =
  content :: string
  msg_location :: "location option"
  msg_timestamp :: time
  messageId :: string

record sent_message =
  sm_message :: message
  sm_sentAt :: time
  sm_status :: SendResult

text \<open>What a per-contact promise resolves to: the success object, or the object the \<^verbatim>\<open>.catch\<close> handler builds.\<close>

record send_outcome =
  so_phone :: string
  so_result :: SendResult
  so_sentAt :: "time option"
  so_error :: "error option"

text \<open>An entry of \<^verbatim>\<open>Promise.allSettled\<close>: \<^verbatim>\<open>{status: 'fulfilled', value}\<close> or \<^verbatim>\<open>{status: 'rejected', reason}\<close>.\<close>

datatype 'a settled = Fulfilled 'a | Rejected error

record notification_data =
  nd_id :: nat
  nd_timestamp :: time
  nd_location :: "location option"
  nd_message :: message
  nd_contacts :: "contact list"

datatype history_entry =
    Completed notification_data "send_outcome settled list" time
  | FailedNotification nat error time

record statistics =
  totalNotifications :: nat
  successfulSends :: nat
  failedSends :: nat
  lastNotificationTime :: "time option"

record emergency_service =
  locationService :: location_service
  contactService :: contact_service
  notificationHistory :: "history_entry list"
  sentMessages :: "sent_message js_map"
  lastNotificationId :: nat
  stats :: statistics

record response =
  success :: bool
  notificationId :: nat
  sentTo :: nat
  successful :: nat
  failed :: nat
  resp_timestamp :: time

definition EmergencyService_new :: emergency_service where
  "EmergencyService_new =
     \<lparr>locationService = TestableLocationService_new,
      contactService = ContactService_new,
      notificationHistory = [],
      sentMessages = [],
      lastNotificationId = 0,
      stats = \<lparr>totalNotifications = 0, successfulSends = 0, failedSends = 0,
               lastNotificationTime = None\<rparr>\<rparr>"

text \<open>\<^verbatim>\<open>!phone || phone.includes('INVALID') || phone.trim().length === 0\<close>\<close>

definition isInvalidPhoneNumber :: "string \<Rightarrow> bool" where
  "isInvalidPhoneNumber p = (p = [] \<or> str_includes p ''INVALID'' \<or> length (trim p) = 0)"

definition simulateMessageSending :: "string \<Rightarrow> message \<Rightarrow> error + unit" where
  "simulateMessageSending p m =
     (if str_includes p ''INVALID'' then Inl INVALID_PHONE_NUMBER_FORMAT else Inr ())"

text \<open>
  \<^verbatim>\<open>_sendMessageToContact\<close>: the promise it returns is rejected (\<open>Inl\<close>) or fulfilled
  (\<open>Inr\<close>); the \<^verbatim>\<open>catch\<close> block counts the failure and throws the error again.
\<close>

definition sendMessageToContact ::
  "time \<Rightarrow> string \<Rightarrow> message \<Rightarrow> emergency_service \<Rightarrow> (error + send_outcome) \<times> emergency_service" where
  "sendMessageToContact now p m s =
     (let thrown =
            (if isInvalidPhoneNumber p then Inl (INVALID_PHONE_NUMBER p)
             else simulateMessageSending p m)
      in case thrown of
           Inl e \<Rightarrow> (Inl e, s\<lparr>stats := (stats s)\<lparr>failedSends := failedSends (stats s) + 1\<rparr>\<rparr>)
         | Inr _ \<Rightarrow>
             (Inr \<lparr>so_phone = p, so_result = SUCCESS, so_sentAt = Some now, so_error = None\<rparr>,
              s\<lparr>sentMessages :=
                   Map_set (sentMessages s) p
                     \<lparr>sm_message = m, sm_sentAt = now, sm_status = SUCCESS\<rparr>,
                 stats := (stats s)\<lparr>successfulSends := successfulSends (stats s) + 1\<rparr>\<rparr>))"

text \<open>
  \<^verbatim>\<open>promise.catch(error => ({phone, result: FAILED, error: error.message}))\<close>: a rejection
  becomes a promise fulfilled with the failure object.
\<close>

definition catchAsFailed :: "string \<Rightarrow> error + send_outcome \<Rightarrow> error + send_outcome" where
  "catchAsFailed p r =
     (case r of
        Inl e \<Rightarrow> Inr \<lparr>so_phone = p, so_result = FAILED, so_sentAt = None, so_error = Some e\<rparr>
      | Inr v \<Rightarrow> Inr v)"

definition settle :: "error + 'a \<Rightarrow> 'a settled" where
  "settle r = (case r of Inl e \<Rightarrow> Rejected e | Inr v \<Rightarrow> Fulfilled v)"

text \<open>
  \<^verbatim>\<open>_sendToAllContacts\<close>: one promise per contact, joined by \<^verbatim>\<open>Promise.allSettled\<close>. The
  sends touch the shared state only by counting and by \<^verbatim>\<open>Map.set\<close> under their own
  phone, in the order of the contacts, so running them one after the other leaves the
  same state as their interleaving.
\<close>

fun sendPromises ::
  "time \<Rightarrow> contact list \<Rightarrow> message \<Rightarrow> emergency_service \<Rightarrow>
   (error + send_outcome) list \<times> emergency_service" where
  "sendPromises now [] m s = ([], s)"
| "sendPromises now (c # cs) m s =
     (let (r, s1) = sendMessageToContact now (phone c) m s;
          (rs, s2) = sendPromises now cs m s1
      in (catchAsFailed (phone c) r # rs, s2))"

definition sendToAllContacts ::
  "time \<Rightarrow> notification_data \<Rightarrow> emergency_service \<Rightarrow>
   send_outcome settled list \<times> emergency_service" where
  "sendToAllContacts now notificationData s =
     (let (ps, s') = sendPromises now (nd_contacts notificationData) (nd_message notificationData) s
      in (map settle ps, s'))"

definition isFulfilled :: "'a settled \<Rightarrow> bool" where
  "isFulfilled r = (case r of Fulfilled v \<Rightarrow> True | Rejected e \<Rightarrow> False)"

definition isRejected :: "'a settled \<Rightarrow> bool" where
  "isRejected r = (case r of Fulfilled v \<Rightarrow> False | Rejected e \<Rightarrow> True)"

definition buildSuccessResponse :: "notification_data \<Rightarrow> send_outcome settled list \<Rightarrow> response" where
  "buildSuccessResponse notificationData sendResults =
     \<lparr>success = True,
      notificationId = nd_id notificationData,
      sentTo = length (nd_contacts notificationData),
      successful = length (filter isFulfilled sendResults),
      failed = length (filter isRejected sendResults),
      resp_timestamp = nd_timestamp notificationData\<rparr>"

definition createEmergencyMessage :: "string \<Rightarrow> location option \<Rightarrow> time \<Rightarrow> message" where
  "createEmergencyMessage rnd l t =
     \<lparr>content = EMERGENCY_ALERT, msg_location = l, msg_timestamp = t, messageId = rnd\<rparr>"

definition validatePrerequisites :: "emergency_service \<Rightarrow> error + unit" where
  "validatePrerequisites s =
     (case validateEmergencyContacts (contactService s) of
        Inl e \<Rightarrow> Inl e
      | Inr v \<Rightarrow> if \<not> isValid v then Inl NO_CONTACTS else Inr ())"

definition buildNotificationData :: "time \<Rightarrow> string \<Rightarrow> nat \<Rightarrow> emergency_service \<Rightarrow> notification_data" where
  "buildNotificationData now rnd nid s =
     (let l = getBestAvailableLocation (locationService s) in
        \<lparr>nd_id = nid, nd_timestamp = now, nd_location = l,
         nd_message = createEmergencyMessage rnd l now,
         nd_contacts = getEmergencyContacts (contactService s)\<rparr>)"

definition recordNotificationResult ::
  "time \<Rightarrow> notification_data \<Rightarrow> send_outcome settled list \<Rightarrow> emergency_service \<Rightarrow> emergency_service" where
  "recordNotificationResult now notificationData sendResults s =
     s\<lparr>notificationHistory := notificationHistory s @ [Completed notificationData sendResults now],
       stats := (stats s)\<lparr>totalNotifications := totalNotifications (stats s) + 1,
                          lastNotificationTime := Some now\<rparr>\<rparr>"

definition recordFailedNotification :: "time \<Rightarrow> nat \<Rightarrow> error \<Rightarrow> emergency_service \<Rightarrow> emergency_service" where
  "recordFailedNotification now nid e s =
     s\<lparr>notificationHistory := notificationHistory s @ [FailedNotification nid e now]\<rparr>"

text \<open>
  \<^verbatim>\<open>sendEmergencyNotification\<close>: the promise it returns is rejected with the error of the
  prerequisites (\<open>Inl\<close>) or fulfilled with the response.
\<close>

definition sendEmergencyNotification ::
  "time \<Rightarrow> string \<Rightarrow> emergency_service \<Rightarrow> (error + response) \<times> emergency_service" where
  "sendEmergencyNotification now rnd s0 =
     (let notificationId' = lastNotificationId s0 + 1;
          s = s0\<lparr>lastNotificationId := notificationId'\<rparr>
      in case validatePrerequisites s of
           Inl e \<Rightarrow> (Inl e, recordFailedNotification now notificationId' e s)
         | Inr _ \<Rightarrow>
             (let notificationData = buildNotificationData now rnd notificationId' s;
                  (sendResults, s1) = sendToAllContacts now notificationData s;
                  s2 = recordNotificationResult now notificationData sendResults s1
              in (Inr (buildSuccessResponse notificationData sendResults), s2)))"

definition isMessageSentTo :: "emergency_service \<Rightarrow> string \<Rightarrow> bool" where
  "isMessageSentTo s p = Map_has (sentMessages s) p"

definition getMessageSentTo :: "emergency_service \<Rightarrow> string \<Rightarrow> sent_message option" where
  "getMessageSentTo s p = Map_get (sentMessages s) p"

section \<open>Concrete inputs\<close>

text \<open>
  The three contacts of the partial-failure test of
  \<^verbatim>\<open>__tests__/EmergencyCall.test.js\<close>, the registry \<^verbatim>\<open>setEmergencyContacts\<close> builds of them,
  and an emergency service that uses this registry.
\<close>

definition spouse :: contact_input where
  "spouse = Obj \<lparr>name_in = Some ''spouse'', phone_in = Some ''090-1234-5678'', priority_in = None\<rparr>"

definition father :: contact_input where
  "father = Obj \<lparr>name_in = Some ''father'', phone_in = Some ''090-INVALID-NUMBER'', priority_in = None\<rparr>"

definition mother :: contact_input where
  "mother = Obj \<lparr>name_in = Some ''mother'', phone_in = Some ''090-3456-7890'', priority_in = None\<rparr>"

definition family_registry :: contact_service where
  "family_registry = setEmergencyContacts 0 (Some [spouse, father, mother]) ContactService_new"

definition family_service :: emergency_service where
  "family_service = EmergencyService_new\<lparr>contactService := family_registry\<rparr>"

text \<open>A contact whose phone is a string in no accepted format.\<close>

definition malformed :: contact_input where
  "malformed = Obj \<lparr>name_in = Some ''x'', phone_in = Some ''abc'', priority_in = None\<rparr>"

text \<open>The location of the tests, a second valid one, and one with a latitude of 91 degrees.\<close>

definition tokyo :: location where
  "tokyo = \<lparr>latitude = Number (Finite 35.6762), longitude = Number (Finite 139.6503),
            accuracy = NonNumber, fixTimestamp = NonNumber\<rparr>"

definition osaka :: location where
  "osaka = \<lparr>latitude = Number (Finite 34.6937), longitude = Number (Finite 135.5023),
            accuracy = NonNumber, fixTimestamp = NonNumber\<rparr>"

definition beyond_pole :: location where
  "beyond_pole = \<lparr>latitude = Number (Finite 91), longitude = Number (Finite 139.6503),
                  accuracy = NonNumber, fixTimestamp = NonNumber\<rparr>"

definition cache_at_tokyo :: location_service where
  "cache_at_tokyo =
     \<lparr>currentLocation = Some tokyo, lastKnownLocation = Some tokyo, isLocationUnavailable = False\<rparr>"

definition cache_without_fix :: location_service where
  "cache_without_fix =
     \<lparr>currentLocation = Some tokyo, lastKnownLocation = Some osaka, isLocationUnavailable = True\<rparr>"

text \<open>A fresh module state with one registered contact, and the state after one full countdown.\<close>

definition one_contact :: emergency_state where
  "one_contact =
     (EmergencyState_new 0)
       \<lparr>emergencyContacts :=
          [\<lparr>contact_id = ''1'', contact_name = ''spouse'', contact_phone = ''090-1234-5678''\<rparr>]\<rparr>"

definition after_countdown :: emergency_state where
  "after_countdown = elapse 3000 (initiateSOS one_contact)"

text \<open>The state after a direct \<^verbatim>\<open>triggerSOS()\<close> with no countdown.\<close>

definition after_direct_trigger :: emergency_state where
  "after_direct_trigger = snd (trigger one_contact)"

section \<open>Properties of the contact registry\<close>

lemmas registry_simps =
  ContactService_new_def addValidatedContact_def checkDuplicatePhone_def checkContactLimits_def
  getContactCount_def hasEmergencyContacts_def getEmergencyContacts_def clearAllContacts_def
  setEmergencyContacts_def validateEmergencyContacts_def or_default_def MAX_CONTACTS_def
  Map_size_def Map_has_def Map_set_def Map_get_def
  isValidPhoneNumber_def normalizePhoneNumber_def digits_9_10_def isDigit_def isWhiteSpace_def

lemma setEmergencyContacts_not_array [simp]:
  "setEmergencyContacts now None s = ContactService_new"
  by (simp add: setEmergencyContacts_def clearAllContacts_def ContactService_new_def)

lemma setEmergencyContacts_forgets_previous:
  "setEmergencyContacts now cs s = setEmergencyContacts now cs ContactService_new"
  by (simp add: setEmergencyContacts_def clearAllContacts_def)

lemma addAll_raising_entries:
  "list_all (\<lambda>c. normalizeContact now c = Inl TypeError) cs \<Longrightarrow> addAll now cs s = s"
  by (induction cs) (simp_all add: addValidatedContact_def)

text \<open>
  Claim C3. The registry should never hold two contacts with the same normalized phone,
  and an add of a phone that is present should fail with the duplicate error. The
  duplicate check of \<^verbatim>\<open>addEmergencyContact\<close> looks the phone up as the caller wrote it, while
  the keys of the map are normalized phones: adding \<^verbatim>\<open>090-1234-5678\<close> twice succeeds twice.
  The list the registry hands out then holds the normalized phone \<^verbatim>\<open>09012345678\<close> twice,
  while the map and the contact count hold it once.
\<close>

theorem addEmergencyContact_twice_same_phone:
  "(case addEmergencyContact 0 spouse ContactService_new of
      Inl e \<Rightarrow> False
    | Inr registry1 \<Rightarrow>
        (case addEmergencyContact 1 spouse registry1 of
           Inl e \<Rightarrow> False
         | Inr registry2 \<Rightarrow>
             map phone (getEmergencyContacts registry2) = [''09012345678'', ''09012345678''] \<and>
             getContactCount registry2 = 1))"
  by (simp add: spouse_def registry_simps)

text \<open>
  Claim C10. \<^verbatim>\<open>setEmergencyContacts\<close> should drop every entry that fails validation, so that
  an array of invalid entries leaves the registry empty. The loop calls
  \<^verbatim>\<open>_addValidatedContact\<close> with no format check before it: the entry with the phone
  \<^verbatim>\<open>abc\<close>, which \<^verbatim>\<open>_validateContactFormat\<close> rejects, is stored, and the registry is not
  empty. (A non-array argument and entries whose insertion raises do leave it empty:
  \<open>setEmergencyContacts_not_array\<close>, \<open>addAll_raising_entries\<close>.)
\<close>

theorem setEmergencyContacts_keeps_malformed_phone:
  "validateContactFormat malformed = Inl INVALID_PHONE_FORMAT \<and>
   map phone (getEmergencyContacts (setEmergencyContacts 0 (Some [malformed]) family_registry)) = [''abc''] \<and>
   hasEmergencyContacts (setEmergencyContacts 0 (Some [malformed]) family_registry)"
  by (simp add: malformed_def registry_simps)

section \<open>Properties of the notification dispatcher\<close>

lemma sendPromises_length:
  "length (fst (sendPromises now cs m s)) = length cs"
  by (induction cs arbitrary: s) (simp_all add: split_beta Let_def)

lemma catchAsFailed_fulfilled:
  "isFulfilled (settle (catchAsFailed p r))"
  by (simp add: catchAsFailed_def settle_def isFulfilled_def split: sum.splits)

lemma catchAsFailed_not_rejected:
  "\<not> isRejected (settle (catchAsFailed p r))"
  by (simp add: catchAsFailed_def settle_def isRejected_def split: sum.splits)

lemma sendPromises_all_fulfilled:
  "filter isFulfilled (map settle (fst (sendPromises now cs m s))) =
   map settle (fst (sendPromises now cs m s))"
  by (induction cs arbitrary: s) (simp_all add: split_beta Let_def catchAsFailed_fulfilled)

lemma sendPromises_none_rejected:
  "filter isRejected (map settle (fst (sendPromises now cs m s))) = []"
  by (induction cs arbitrary: s) (simp_all add: split_beta Let_def catchAsFailed_not_rejected)

text \<open>
  Whatever the contacts are, the response reports every one of them as successful and
  none as failed: the \<^verbatim>\<open>.catch\<close> handler has turned each rejection into a fulfilled
  promise before \<^verbatim>\<open>Promise.allSettled\<close> looks at it.
\<close>

lemma response_never_reports_failure:
  "failed (buildSuccessResponse nd (fst (sendToAllContacts now nd s))) = 0 \<and>
   successful (buildSuccessResponse nd (fst (sendToAllContacts now nd s))) = length (nd_contacts nd)"
  by (simp add: buildSuccessResponse_def sendToAllContacts_def split_beta
      sendPromises_all_fulfilled sendPromises_none_rejected sendPromises_length)

text \<open>
  Claim C1. A dispatch to the contacts [valid, marked invalid, valid] should succeed as a
  call and report total 3, successful 2, failed 1. With the registry of the repository
  the call fails as a whole: \<^verbatim>\<open>_validatePrerequisites\<close> re-validates every phone and
  rejects the registry because of the marked one. When the fan-out itself runs on
  these three contacts, the two valid ones get a sent message, the marked one gets
  none and the statistics count 2 and 1, but the response built of the settled promises
  says successful 3, failed 0.
\<close>

theorem dispatch_with_invalid_contact:
  "fst (sendEmergencyNotification 5 ''r'' family_service) =
     Inl (INVALID_PHONES_INCLUDED [''090INVALIDNUMBER'']) \<and>
   (let notificationData = buildNotificationData 5 ''r'' 1 family_service;
        (sendResults, s') = sendToAllContacts 5 notificationData family_service
    in buildSuccessResponse notificationData sendResults =
         \<lparr>success = True, notificationId = 1, sentTo = 3, successful = 3, failed = 0,
          resp_timestamp = 5\<rparr> \<and>
       isMessageSentTo s' ''09012345678'' \<and>
       \<not> isMessageSentTo s' ''090INVALIDNUMBER'' \<and>
       isMessageSentTo s' ''09034567890'' \<and>
       successfulSends (stats s') = 2 \<and> failedSends (stats s') = 1)"
proof -
  have registry: "family_registry =
    \<lparr>contactsByPhone =
       [(''09012345678'', \<lparr>name = ''spouse'', phone = ''09012345678'', addedAt = 0, priority = ''normal''\<rparr>),
        (''090INVALIDNUMBER'', \<lparr>name = ''father'', phone = ''090INVALIDNUMBER'', addedAt = 0, priority = ''normal''\<rparr>),
        (''09034567890'', \<lparr>name = ''mother'', phone = ''09034567890'', addedAt = 0, priority = ''normal''\<rparr>)],
     contactOrder =
       [\<lparr>name = ''spouse'', phone = ''09012345678'', addedAt = 0, priority = ''normal''\<rparr>,
        \<lparr>name = ''father'', phone = ''090INVALIDNUMBER'', addedAt = 0, priority = ''normal''\<rparr>,
        \<lparr>name = ''mother'', phone = ''09034567890'', addedAt = 0, priority = ''normal''\<rparr>]\<rparr>"
    by (simp add: family_registry_def spouse_def father_def mother_def registry_simps)
  have call_fails: "fst (sendEmergencyNotification 5 ''r'' family_service) =
     Inl (INVALID_PHONES_INCLUDED [''090INVALIDNUMBER''])"
    by (simp add: family_service_def registry EmergencyService_new_def sendEmergencyNotification_def
        validatePrerequisites_def validateEmergencyContacts_def hasEmergencyContacts_def
        Map_size_def isValidPhoneNumber_def normalizePhoneNumber_def digits_9_10_def isDigit_def
        isWhiteSpace_def)
  have fan_out: "(let notificationData = buildNotificationData 5 ''r'' 1 family_service;
        (sendResults, s') = sendToAllContacts 5 notificationData family_service
    in buildSuccessResponse notificationData sendResults =
         \<lparr>success = True, notificationId = 1, sentTo = 3, successful = 3, failed = 0,
          resp_timestamp = 5\<rparr> \<and>
       isMessageSentTo s' ''09012345678'' \<and>
       \<not> isMessageSentTo s' ''090INVALIDNUMBER'' \<and>
       isMessageSentTo s' ''09034567890'' \<and>
       successfulSends (stats s') = 2 \<and> failedSends (stats s') = 1)"
    by (simp add: family_service_def registry EmergencyService_new_def buildNotificationData_def
        getEmergencyContacts_def sendToAllContacts_def sendMessageToContact_def
        isInvalidPhoneNumber_def simulateMessageSending_def trim_def isWhiteSpace_def
        catchAsFailed_def settle_def buildSuccessResponse_def isFulfilled_def isRejected_def
        isMessageSentTo_def Map_has_def Map_set_def createEmergencyMessage_def Let_def)
  from call_fails fan_out show ?thesis by (rule conjI)
qed

section \<open>Properties of the location cache\<close>

text \<open>A location is valid exactly when both coordinates are finite numbers within the bounds.\<close>

lemma isValidLocationData_iff:
  "isValidLocationData l \<longleftrightarrow>
     (\<exists>lat lng. latitude l = Number (Finite lat) \<and> longitude l = Number (Finite lng) \<and>
        -90 \<le> lat \<and> lat \<le> 90 \<and> -180 \<le> lng \<and> lng \<le> 180)"
proof (cases "latitude l")
  case NonNumber
  then show ?thesis by (simp add: isValidLocationData_def)
next
  case (Number lat)
  note lat = this
  show ?thesis
  proof (cases "longitude l")
    case NonNumber
    then show ?thesis by (simp add: isValidLocationData_def lat)
  next
    case (Number lng)
    then show ?thesis
      by (cases lat; cases lng) (auto simp: isValidLocationData_def lat isValidCoordinate_def)
  qed
qed

lemma tokyo_valid: "isValidLocationData tokyo"
  by (simp add: tokyo_def isValidLocationData_def isValidCoordinate_def)

lemma osaka_valid: "isValidLocationData osaka"
  by (simp add: osaka_def isValidLocationData_def isValidCoordinate_def)

lemma beyond_pole_invalid: "\<not> isValidLocationData beyond_pole"
  by (simp add: beyond_pole_def isValidLocationData_def isValidCoordinate_def)

text \<open>
  Claim C6. \<^verbatim>\<open>getBestAvailableLocation\<close> returns the current location if it is present,
  not flagged unavailable and valid; else the last known location if it is present and
  valid; else nothing. In particular, when the current location is unset or the flag is
  set and the last known location is valid, the last known location is returned as it
  is stored.
\<close>

theorem getBestAvailableLocation_fallback:
  "getBestAvailableLocation s =
     (if \<not> isLocationUnavailable s \<and> presentAndValid (currentLocation s) then currentLocation s
      else if presentAndValid (lastKnownLocation s) then lastKnownLocation s
      else None) \<and>
   ((currentLocation s = None \<or> isLocationUnavailable s) \<and>
    lastKnownLocation s = Some l \<and> isValidLocationData l
      \<longrightarrow> getBestAvailableLocation s = Some l)"
  by (auto simp: getBestAvailableLocation_def getCurrentLocation_def getLastKnownLocation_def
      presentAndValid_def Let_def)

text \<open>Witness of C6: the device reports no fix, the cache still knows Osaka.\<close>

theorem getBestAvailableLocation_fallback_witness:
  "isLocationUnavailable cache_without_fix \<and>
   lastKnownLocation cache_without_fix = Some osaka \<and>
   isValidLocationData osaka \<and>
   getBestAvailableLocation cache_without_fix = Some osaka"
proof -
  have given: "(currentLocation cache_without_fix = None \<or> isLocationUnavailable cache_without_fix) \<and>
      lastKnownLocation cache_without_fix = Some osaka \<and> isValidLocationData osaka"
    by (simp add: cache_without_fix_def osaka_valid)
  with getBestAvailableLocation_fallback [of cache_without_fix osaka]
  have "getBestAvailableLocation cache_without_fix = Some osaka"
    by blast
  with given show ?thesis
    by (simp add: cache_without_fix_def)
qed

text \<open>
  Counterexample to claim C9 as stated (an invalid input leaves the stored locations
  unchanged): the cache holds Tokyo as its current location, and a call of
  \<^verbatim>\<open>setCurrentLocation\<close> with a latitude of 91 degrees leaves it with no current location.
\<close>

theorem setCurrentLocation_invalid_clears_counterexample:
  "\<not> isValidLocationData beyond_pole \<and>
   currentLocation cache_at_tokyo = Some tokyo \<and>
   setCurrentLocation (Truthy beyond_pole) cache_at_tokyo =
     Inr \<lparr>currentLocation = None, lastKnownLocation = Some tokyo, isLocationUnavailable = False\<rparr>"
  by (simp add: beyond_pole_invalid setCurrentLocation_def cache_at_tokyo_def)

text \<open>
  Claim C9, amended. For an input that fails the validation, each setter returns without
  an exception and does not store the input: it empties the slot it was asked to set and
  leaves the other slot and the flag as they are. For every input, a setter returns
  without an exception and takes a cache whose stored locations are all valid to such a
  cache.
\<close>

theorem setters_reject_invalid_location:
  "(\<not> isValidLocationData l \<longrightarrow>
      setCurrentLocation (Truthy l) s = Inr (s\<lparr>currentLocation := None\<rparr>) \<and>
      setLastKnownLocation (Truthy l) s = Inr (s\<lparr>lastKnownLocation := None\<rparr>)) \<and>
   (\<exists>s'. setCurrentLocation x s = Inr s' \<and>
         (storedLocationsValid s \<longrightarrow> storedLocationsValid s')) \<and>
   (\<exists>s'. setLastKnownLocation x s = Inr s' \<and>
         (storedLocationsValid s \<longrightarrow> storedLocationsValid s'))"
  by (cases x) (auto simp: setCurrentLocation_def setLastKnownLocation_def storedLocationsValid_def
      updateLastKnownLocation_def split: option.splits)

text \<open>Witness of C9: the cache at Tokyo and the latitude of 91 degrees.\<close>

theorem setters_reject_invalid_location_witness:
  "\<not> isValidLocationData beyond_pole \<and>
   storedLocationsValid cache_at_tokyo \<and>
   setCurrentLocation (Truthy beyond_pole) cache_at_tokyo =
     Inr (cache_at_tokyo\<lparr>currentLocation := None\<rparr>) \<and>
   setLastKnownLocation (Truthy beyond_pole) cache_at_tokyo =
     Inr (cache_at_tokyo\<lparr>lastKnownLocation := None\<rparr>) \<and>
   storedLocationsValid (cache_at_tokyo\<lparr>currentLocation := None\<rparr>) \<and>
   storedLocationsValid (cache_at_tokyo\<lparr>lastKnownLocation := None\<rparr>)"
  using setters_reject_invalid_location [of beyond_pole cache_at_tokyo "Truthy beyond_pole"]
  by (simp add: beyond_pole_invalid tokyo_valid storedLocationsValid_def cache_at_tokyo_def)

section \<open>Properties of the power button state machine\<close>

lemmas power_button_simps =
  triggerPowerButton_def incrementPressCount_def clearExistingTimeout_def
  shouldTriggerEmergency_def isValidPressCount_def startTimeout_def triggerEmergency_def
  resetToIdle_def runPressTimeout_def REQUIRED_PRESS_COUNT_def PRESS_TIMEOUT_MS_def

lemma pb_run_snoc: "pb_run (evs @ [e]) = pb_step (pb_run evs) e"
  by (simp add: pb_run_def)

lemma pb_inv_new: "pb_inv PowerButtonService_new"
  by (simp add: pb_inv_def PowerButtonService_new_def)

lemma pb_inv_timeout: "pb_inv s \<Longrightarrow> pb_inv (runPressTimeout now s)"
  by (auto simp: pb_inv_def power_button_simps split: option.splits if_splits)

lemma pb_inv_press: "pb_inv s \<Longrightarrow> pb_inv (triggerPowerButton now s)"
  by (auto simp: pb_inv_def power_button_simps Let_def split: if_splits)

lemma pb_inv_step: "pb_inv s \<Longrightarrow> pb_inv (pb_step s e)"
  by (cases e) (simp_all add: pb_inv_timeout pb_inv_press)

lemma pb_inv_run: "pb_inv (pb_run evs)"
proof (induction evs rule: rev_induct)
  case Nil
  show ?case by (simp add: pb_run_def pb_inv_new)
next
  case (snoc e evs)
  then show ?case by (simp add: pb_run_snoc pb_inv_step)
qed

lemma pb_triggered_terminal:
  "pb_inv s \<Longrightarrow> currentState s = TRIGGERED \<Longrightarrow> pb_step s e = s"
  by (cases e) (auto simp: pb_inv_def power_button_simps)

text \<open>
  Claim C7. A press outside \<open>TRIGGERED\<close> increments the count; below 3 it arms a fresh
  timeout of 3000 ms from the press; the press that reaches 3 moves to \<open>TRIGGERED\<close> with
  no timeout pending and issues one emergency notification; in \<open>TRIGGERED\<close> a press
  changes nothing. A pending timeout that is due resets the machine to \<open>IDLE\<close> with count
  0, and one that is not due changes nothing. In every reachable state, \<open>TRIGGERED\<close> is
  terminal for presses and the passing of time, and the count is below 3 elsewhere.
\<close>

theorem power_button_state_machine:
  "(currentState s \<noteq> TRIGGERED \<and> pressCount s + 1 < 3 \<longrightarrow>
      triggerPowerButton now s =
        s\<lparr>pressCount := pressCount s + 1, currentState := COUNTING,
          pressTimeout := Some (now + 3000)\<rparr>) \<and>
   (currentState s \<noteq> TRIGGERED \<and> pressCount s + 1 = 3 \<longrightarrow>
      triggerPowerButton now s =
        s\<lparr>pressCount := 3, currentState := TRIGGERED, pressTimeout := None,
          notificationCalls := notificationCalls s + 1\<rparr>) \<and>
   (currentState s = TRIGGERED \<longrightarrow> triggerPowerButton now s = s) \<and>
   (pressTimeout s = Some due \<and> due \<le> now \<longrightarrow>
      runPressTimeout now s = s\<lparr>pressCount := 0, currentState := IDLE, pressTimeout := None\<rparr>) \<and>
   (pressTimeout s = Some due \<and> now < due \<longrightarrow> runPressTimeout now s = s) \<and>
   (currentState (pb_run evs) = TRIGGERED \<longrightarrow> pb_step (pb_run evs) e = pb_run evs) \<and>
   (currentState (pb_run evs) \<noteq> TRIGGERED \<longrightarrow> pressCount (pb_run evs) < 3)"
proof -
  have press_below: "currentState s \<noteq> TRIGGERED \<and> pressCount s + 1 < 3 \<longrightarrow>
      triggerPowerButton now s =
        s\<lparr>pressCount := pressCount s + 1, currentState := COUNTING,
          pressTimeout := Some (now + 3000)\<rparr>"
    by (simp add: power_button_simps Let_def)
  have press_reaches: "currentState s \<noteq> TRIGGERED \<and> pressCount s + 1 = 3 \<longrightarrow>
      triggerPowerButton now s =
        s\<lparr>pressCount := 3, currentState := TRIGGERED, pressTimeout := None,
          notificationCalls := notificationCalls s + 1\<rparr>"
    by (simp add: power_button_simps Let_def)
  have ignored: "currentState s = TRIGGERED \<longrightarrow> triggerPowerButton now s = s"
    by (simp add: triggerPowerButton_def)
  have fires: "pressTimeout s = Some due \<and> due \<le> now \<longrightarrow>
      runPressTimeout now s = s\<lparr>pressCount := 0, currentState := IDLE, pressTimeout := None\<rparr>"
    by (simp add: power_button_simps)
  have waits: "pressTimeout s = Some due \<and> now < due \<longrightarrow> runPressTimeout now s = s"
    by (simp add: power_button_simps)
  have terminal: "currentState (pb_run evs) = TRIGGERED \<longrightarrow> pb_step (pb_run evs) e = pb_run evs"
    using pb_triggered_terminal [OF pb_inv_run] by simp
  have below: "currentState (pb_run evs) \<noteq> TRIGGERED \<longrightarrow> pressCount (pb_run evs) < 3"
    using pb_inv_run [of evs] by (simp add: pb_inv_def)
  from press_below press_reaches ignored fires waits terminal below show ?thesis by blast
qed

text \<open>
  Witness of C7: the first press of a new service, the third press, a fourth press, and
  the timeout of a first press at the instants 3000 and 2999.
\<close>

theorem power_button_state_machine_witness:
  "triggerPowerButton 0 PowerButtonService_new =
     \<lparr>pressCount = 1, pressTimeout = Some 3000, currentState = COUNTING, notificationCalls = 0\<rparr> \<and>
   pb_run [Press 0, Press 100] =
     \<lparr>pressCount = 2, pressTimeout = Some 3100, currentState = COUNTING, notificationCalls = 0\<rparr> \<and>
   triggerPowerButton 200 (pb_run [Press 0, Press 100]) =
     \<lparr>pressCount = 3, pressTimeout = None, currentState = TRIGGERED, notificationCalls = 1\<rparr> \<and>
   currentState (pb_run [Press 0, Press 100, Press 200]) = TRIGGERED \<and>
   pb_step (pb_run [Press 0, Press 100, Press 200]) (Press 300) =
     pb_run [Press 0, Press 100, Press 200] \<and>
   pressTimeout (pb_run [Press 0]) = Some 3000 \<and>
   runPressTimeout 3000 (pb_run [Press 0]) =
     \<lparr>pressCount = 0, pressTimeout = None, currentState = IDLE, notificationCalls = 0\<rparr> \<and>
   runPressTimeout 2999 (pb_run [Press 0]) = pb_run [Press 0] \<and>
   pressCount (pb_run [Press 0]) < 3"
  using power_button_state_machine [of PowerButtonService_new 0 0 "[Press 0, Press 100, Press 200]" "Press 300"]
    power_button_state_machine [of "pb_run [Press 0, Press 100]" 200 3100 "[Press 0]" "Tick 0"]
    power_button_state_machine [of "pb_run [Press 0]" 3000 3000 "[]" "Tick 0"]
    power_button_state_machine [of "pb_run [Press 0]" 2999 3000 "[]" "Tick 0"]
  by (simp add: pb_run_def PowerButtonService_new_def power_button_simps)

section \<open>Properties of the press recognizer\<close>

text \<open>
  Some interval satisfies \<open>P\<close> exactly when two presses that follow each other have
  timestamps whose difference satisfies \<open>P\<close>.
\<close>

lemma calculateIntervals_ex:
  "list_ex P (calculateIntervals ts) \<longleftrightarrow> (\<exists>i. Suc i < length ts \<and> P (ts ! Suc i - ts ! i))"
proof (induction ts rule: calculateIntervals.induct)
  case (1 a b ts)
  have "(\<exists>i. Suc i < length (a # b # ts) \<and> P ((a # b # ts) ! Suc i - (a # b # ts) ! i)) \<longleftrightarrow>
        P (b - a) \<or> (\<exists>j. Suc j < length (b # ts) \<and> P ((b # ts) ! Suc j - (b # ts) ! j))"
    (is "?all \<longleftrightarrow> ?first_or_later")
  proof
    assume ?all
    then obtain i where i: "Suc i < length (a # b # ts)"
        "P ((a # b # ts) ! Suc i - (a # b # ts) ! i)"
      by blast
    show ?first_or_later
    proof (cases i)
      case 0
      with i show ?thesis by simp
    next
      case (Suc j)
      with i show ?thesis by auto
    qed
  next
    assume ?first_or_later
    then show ?all
    proof
      assume "P (b - a)"
      then have "Suc 0 < length (a # b # ts) \<and> P ((a # b # ts) ! Suc 0 - (a # b # ts) ! 0)"
        by simp
      then show ?all by blast
    next
      assume "\<exists>j. Suc j < length (b # ts) \<and> P ((b # ts) ! Suc j - (b # ts) ! j)"
      then obtain j where "Suc j < length (b # ts)" "P ((b # ts) ! Suc j - (b # ts) ! j)"
        by blast
      then have "Suc (Suc j) < length (a # b # ts) \<and>
          P ((a # b # ts) ! Suc (Suc j) - (a # b # ts) ! Suc j)"
        by simp
      then show ?all by blast
    qed
  qed
  with 1 show ?case by simp
qed simp_all

lemma hasIrregularInterval_iff:
  "hasIrregularInterval (calculateIntervals (map timestamp ps)) MAX_BUTTON_INTERVAL \<longleftrightarrow>
   (\<exists>i. Suc i < length ps \<and> timestamp (ps ! Suc i) - timestamp (ps ! i) \<ge> 5000)"
  by (simp add: hasIrregularInterval_def calculateIntervals_ex MAX_BUTTON_INTERVAL_def
      cong: conj_cong)

lemma recordPress_keeps_countdown:
  "timers (recordPress b s) = timers s \<and> sosState (recordPress b s) = sosState s \<and>
   countdownTimer (recordPress b s) = countdownTimer s"
  by (simp add: recordPress_def Let_def)

text \<open>
  Claim C5. The validation fails with no classification when no button is configured, no
  press is recorded, or the last press is of another button than the configured one.
  Otherwise the sequence is a false positive when two presses that follow each other in
  the record are 5000 ms or more apart, and it is valid in every other case, that of fewer
  than two presses included. A press event records the press and then initiates the
  countdown exactly when the validation of the new record says valid; recording a
  press touches neither the pending timers nor the SOS state.
\<close>

theorem validateButtonSequence_classification:
  "validateButtonSequence s =
     (if buttonConfig s = None
      then \<lparr>isValidSOS = False, isFalsePositive = None, reason = Some NO_BUTTON_CONFIG\<rparr>
      else if buttonPresses s = []
      then \<lparr>isValidSOS = False, isFalsePositive = None, reason = Some NO_BUTTON_PRESS\<rparr>
      else if button (last (buttonPresses s)) \<noteq> cfg_button (the (buttonConfig s))
      then \<lparr>isValidSOS = False, isFalsePositive = None, reason = Some DIFFERENT_BUTTON\<rparr>
      else if (\<exists>i. Suc i < length (buttonPresses s) \<and>
                   timestamp (buttonPresses s ! Suc i) - timestamp (buttonPresses s ! i) \<ge> 5000)
      then \<lparr>isValidSOS = False, isFalsePositive = Some True, reason = Some IRREGULAR_PATTERN\<rparr>
      else \<lparr>isValidSOS = True, isFalsePositive = Some False, reason = None\<rparr>) \<and>
   handleVolumeButtonPress b s =
     (if isValidSOS (validateButtonSequence (recordPress b s))
      then initiateSOS (recordPress b s) else recordPress b s) \<and>
   timers (recordPress b s) = timers s \<and> sosState (recordPress b s) = sosState s"
proof -
  have few: "\<not> (\<exists>i. Suc i < length (buttonPresses s) \<and>
                   timestamp (buttonPresses s ! Suc i) - timestamp (buttonPresses s ! i) \<ge> 5000)"
    if "length (buttonPresses s) < 2"
    using that by auto
  have intervals: "validatePressIntervals s =
     (if (\<exists>i. Suc i < length (buttonPresses s) \<and>
                   timestamp (buttonPresses s ! Suc i) - timestamp (buttonPresses s ! i) \<ge> 5000)
      then \<lparr>isValidSOS = False, isFalsePositive = Some True, reason = Some IRREGULAR_PATTERN\<rparr>
      else \<lparr>isValidSOS = True, isFalsePositive = Some False, reason = None\<rparr>)"
  proof (cases "length (buttonPresses s) < 2")
    case True
    with few show ?thesis by (simp add: validatePressIntervals_def)
  next
    case False
    then show ?thesis
      by (simp add: validatePressIntervals_def Let_def hasIrregularInterval_iff)
  qed
  have sequence: "validateButtonSequence s =
     (if buttonConfig s = None
      then \<lparr>isValidSOS = False, isFalsePositive = None, reason = Some NO_BUTTON_CONFIG\<rparr>
      else if buttonPresses s = []
      then \<lparr>isValidSOS = False, isFalsePositive = None, reason = Some NO_BUTTON_PRESS\<rparr>
      else if button (last (buttonPresses s)) \<noteq> cfg_button (the (buttonConfig s))
      then \<lparr>isValidSOS = False, isFalsePositive = None, reason = Some DIFFERENT_BUTTON\<rparr>
      else if (\<exists>i. Suc i < length (buttonPresses s) \<and>
                   timestamp (buttonPresses s ! Suc i) - timestamp (buttonPresses s ! i) \<ge> 5000)
      then \<lparr>isValidSOS = False, isFalsePositive = Some True, reason = Some IRREGULAR_PATTERN\<rparr>
      else \<lparr>isValidSOS = True, isFalsePositive = Some False, reason = None\<rparr>)"
    using intervals by (simp add: validateButtonSequence_def split: option.splits)
  have event: "handleVolumeButtonPress b s =
     (if isValidSOS (validateButtonSequence (recordPress b s))
      then initiateSOS (recordPress b s) else recordPress b s)"
    by (simp add: handleVolumeButtonPress_def Let_def)
  from sequence event recordPress_keeps_countdown [of b s] show ?thesis
    by simp
qed

section \<open>Properties of the countdown\<close>

lemmas countdown_simps =
  initiateSOS_def cancel_def elapse_def clearTimeout_def countdownCallback_def trigger_def
  hasContacts_def COUNTDOWN_DURATION_def Let_def

lemmas fresh_state_simps =
  EmergencyState_new_def createInitialSOSState_def createInitialUIState_def one_contact_def

text \<open>
  Claim C2. Take a state with no countdown pending and nothing sent. After
  \<^verbatim>\<open>initiateSOS()\<close> and, less than 3000 ms later, \<^verbatim>\<open>cancel()\<close>, nothing is sent, however
  much time passes afterwards: \<^verbatim>\<open>SOSService.trigger\<close> is never called and no timer is left.
  After \<^verbatim>\<open>initiateSOS()\<close> and 3000 ms or more with no call, \<^verbatim>\<open>SOSService.trigger\<close> has been
  called exactly once and no timer is left; the call has set \<open>sent\<close> exactly when a
  contact is registered and the network is available.
\<close>

theorem countdown_cancel_or_fire:
  assumes "timers s = []" and "\<not> sent (sosState s)"
  shows "(0 \<le> d \<and> d < 3000 \<and> 0 \<le> e \<longrightarrow>
            \<not> sent (sosState (elapse e (cancel (elapse d (initiateSOS s))))) \<and>
            triggerCalls (elapse e (cancel (elapse d (initiateSOS s)))) = triggerCalls s \<and>
            timers (elapse e (cancel (elapse d (initiateSOS s)))) = []) \<and>
         (3000 \<le> w \<longrightarrow>
            triggerCalls (elapse w (initiateSOS s)) = triggerCalls s + 1 \<and>
            timers (elapse w (initiateSOS s)) = [] \<and>
            (sent (sosState (elapse w (initiateSOS s))) \<longleftrightarrow> hasContacts s \<and> networkStatus s))"
proof -
  have cancelled:
    "\<not> sent (sosState (elapse e (cancel (elapse d (initiateSOS s))))) \<and>
     triggerCalls (elapse e (cancel (elapse d (initiateSOS s)))) = triggerCalls s \<and>
     timers (elapse e (cancel (elapse d (initiateSOS s)))) = []"
    if "d < 3000"
    using that assms by (simp add: countdown_simps)
  have fired:
    "triggerCalls (elapse w (initiateSOS s)) = triggerCalls s + 1 \<and>
     timers (elapse w (initiateSOS s)) = [] \<and>
     (sent (sosState (elapse w (initiateSOS s))) \<longleftrightarrow> hasContacts s \<and> networkStatus s)"
    if "3000 \<le> w"
    using that assms by (simp add: countdown_simps)
  from cancelled fired show ?thesis by blast
qed

text \<open>
  Witness of C2: one registered contact; a cancel after 1000 ms and a wait of 5000 ms,
  and a wait of 3000 ms with no cancel.
\<close>

theorem countdown_cancel_or_fire_witness:
  "timers one_contact = [] \<and> \<not> sent (sosState one_contact) \<and>
   \<not> sent (sosState (elapse 5000 (cancel (elapse 1000 (initiateSOS one_contact))))) \<and>
   triggerCalls (elapse 5000 (cancel (elapse 1000 (initiateSOS one_contact)))) = 0 \<and>
   triggerCalls (elapse 3000 (initiateSOS one_contact)) = 1 \<and>
   sent (sosState (elapse 3000 (initiateSOS one_contact)))"
proof -
  have fresh: "timers one_contact = []" "\<not> sent (sosState one_contact)"
    by (simp_all add: fresh_state_simps)
  have more: "triggerCalls one_contact = 0" "hasContacts one_contact" "networkStatus one_contact"
    by (simp_all add: fresh_state_simps hasContacts_def)
  from countdown_cancel_or_fire [OF fresh, of 1000 5000 3000] fresh more show ?thesis
    by simp
qed

text \<open>
  Counterexample to claim C4 as stated (no reachable state has two pending countdown
  timers): \<^verbatim>\<open>initiateSOS()\<close> called twice on the fresh state. The first call has set
  \<open>initiated\<close>, the second call is not refused, two timers are pending, and both call
  \<^verbatim>\<open>SOSService.trigger\<close> when they are due.
\<close>

theorem initiateSOS_twice_counterexample:
  "initiated (sosState (initiateSOS (EmergencyState_new 0))) \<and>
   timers (initiateSOS (initiateSOS (EmergencyState_new 0))) = [(1, 3000), (2, 3000)] \<and>
   triggerCalls (elapse 3000 (initiateSOS (initiateSOS (EmergencyState_new 0)))) = 2"
  by (simp add: countdown_simps fresh_state_simps)

lemma initiateSOS_funpow_timers:
  "length (timers ((initiateSOS ^^ n) s)) = length (timers s) + n"
  by (induction n) (simp_all add: initiateSOS_def)

text \<open>
  Claim C4, amended. \<^verbatim>\<open>initiateSOS\<close> has no guard: in every state a call sets \<open>initiated\<close>,
  schedules one more delayed action, due 3000 ms later, and keeps the handle of this
  newest one only; \<open>n\<close> calls in a row leave \<open>n\<close> more pending. From a state with no
  delayed action pending a call leaves exactly one. The \<open>initiated\<close> flag is read when a
  delayed action runs: the action does nothing when the flag is false and calls
  \<^verbatim>\<open>SOSService.trigger\<close> when it is true.
\<close>

theorem initiateSOS_schedules_one_more:
  "timers (initiateSOS s) = timers s @ [(nextTimerId s, clock s + 3000)] \<and>
   countdownTimer (initiateSOS s) = Some (nextTimerId s) \<and>
   initiated (sosState (initiateSOS s)) \<and>
   length (timers ((initiateSOS ^^ n) s)) = length (timers s) + n \<and>
   (timers s = [] \<longrightarrow> length (timers (initiateSOS s)) = 1) \<and>
   (\<not> initiated (sosState s) \<longrightarrow> countdownCallback s = s) \<and>
   (initiated (sosState s) \<longrightarrow> countdownCallback s = snd (trigger s))"
proof -
  have one_call: "timers (initiateSOS s) = timers s @ [(nextTimerId s, clock s + 3000)] \<and>
      countdownTimer (initiateSOS s) = Some (nextTimerId s) \<and>
      initiated (sosState (initiateSOS s))"
    by (simp add: initiateSOS_def COUNTDOWN_DURATION_def)
  have callback: "countdownCallback s = (if initiated (sosState s) then snd (trigger s) else s)"
    by (simp add: countdownCallback_def)
  from one_call callback initiateSOS_funpow_timers [of n s] show ?thesis
    by simp
qed

text \<open>
  Witness of C4: the fresh state, where nothing is pending and \<open>initiated\<close> is false, and
  the state after one call, where \<open>initiated\<close> is true.
\<close>

theorem initiateSOS_schedules_one_more_witness:
  "timers (EmergencyState_new 0) = [] \<and>
   \<not> initiated (sosState (EmergencyState_new 0)) \<and>
   length (timers (initiateSOS (EmergencyState_new 0))) = 1 \<and>
   countdownCallback (EmergencyState_new 0) = EmergencyState_new 0 \<and>
   initiated (sosState (initiateSOS (EmergencyState_new 0))) \<and>
   countdownCallback (initiateSOS (EmergencyState_new 0)) =
     snd (trigger (initiateSOS (EmergencyState_new 0))) \<and>
   length (timers ((initiateSOS ^^ 2) (EmergencyState_new 0))) = 2"
proof -
  have fresh: "timers (EmergencyState_new 0) = []" "\<not> initiated (sosState (EmergencyState_new 0))"
    by (simp_all add: fresh_state_simps)
  from initiateSOS_schedules_one_more [of "EmergencyState_new 0" 2]
    initiateSOS_schedules_one_more [of "initiateSOS (EmergencyState_new 0)" 0]
    fresh
  show ?thesis by simp
qed

text \<open>
  Counterexample to claim C8 as stated (after \<open>sent\<close> is set, \<^verbatim>\<open>cancel()\<close> changes neither
  the SOS state nor the UI state): the state after a full countdown with one contact has
  \<open>sent\<close> and \<open>initiated\<close> set and shows the cancel button; \<^verbatim>\<open>cancel()\<close> changes both
  states.
\<close>

theorem cancel_after_sent_counterexample:
  "sent (sosState after_countdown) \<and>
   sosState (cancel after_countdown) \<noteq> sosState after_countdown \<and>
   uiState (cancel after_countdown) \<noteq> uiState after_countdown"
  by (simp add: after_countdown_def countdown_simps fresh_state_simps)

text \<open>
  Claim C8, amended. Once \<open>sent\<close> is set, \<^verbatim>\<open>cancel()\<close> leaves \<open>sent\<close> and the timestamp as
  they are and calls no dispatch, but it still sets \<open>initiated\<close> to false and hides the
  cancel button: the SOS state and the UI state are the same after the call exactly when
  \<open>initiated\<close> and the two UI flags were false before it.
\<close>

theorem cancel_after_sent:
  "sent (sosState s) \<longrightarrow>
     sent (sosState (cancel s)) \<and>
     sos_timestamp (sosState (cancel s)) = sos_timestamp (sosState s) \<and>
     sosState (cancel s) = (sosState s)\<lparr>initiated := False\<rparr> \<and>
     uiState (cancel s) = (uiState s)\<lparr>showCancelButton := False, cancelButtonVisible := False\<rparr> \<and>
     triggerCalls (cancel s) = triggerCalls s \<and>
     ((sosState (cancel s) = sosState s \<and> uiState (cancel s) = uiState s) \<longleftrightarrow>
        (\<not> initiated (sosState s) \<and> \<not> showCancelButton (uiState s) \<and>
         \<not> cancelButtonVisible (uiState s)))"
proof -
  have sos: "sosState (cancel s) = (sosState s)\<lparr>initiated := False\<rparr>"
    by (simp add: cancel_def Let_def split: option.splits)
  have ui: "uiState (cancel s) =
      (uiState s)\<lparr>showCancelButton := False, cancelButtonVisible := False\<rparr>"
    by (simp add: cancel_def Let_def split: option.splits)
  have calls: "triggerCalls (cancel s) = triggerCalls s"
    by (simp add: cancel_def Let_def split: option.splits)
  have sos_same: "(sosState s)\<lparr>initiated := False\<rparr> = sosState s \<longleftrightarrow> \<not> initiated (sosState s)"
    by (cases "sosState s") auto
  have ui_same:
    "(uiState s)\<lparr>showCancelButton := False, cancelButtonVisible := False\<rparr> = uiState s \<longleftrightarrow>
       \<not> showCancelButton (uiState s) \<and> \<not> cancelButtonVisible (uiState s)"
    by (cases "uiState s") auto
  show ?thesis
    by (simp add: sos ui calls sos_same ui_same)
qed

text \<open>
  Witness of C8: after a direct trigger \<open>sent\<close> is set and \<^verbatim>\<open>cancel()\<close> changes neither
  state; after a countdown \<open>sent\<close> is set and \<^verbatim>\<open>cancel()\<close> keeps \<open>sent\<close> and resets
  \<open>initiated\<close>.
\<close>

theorem cancel_after_sent_witness:
  "sent (sosState after_direct_trigger) \<and>
   sosState (cancel after_direct_trigger) = sosState after_direct_trigger \<and>
   uiState (cancel after_direct_trigger) = uiState after_direct_trigger \<and>
   sent (sosState after_countdown) \<and>
   sent (sosState (cancel after_countdown)) \<and>
   \<not> initiated (sosState (cancel after_countdown))"
proof -
  have direct: "sent (sosState after_direct_trigger)"
      "\<not> initiated (sosState after_direct_trigger)"
      "\<not> showCancelButton (uiState after_direct_trigger)"
      "\<not> cancelButtonVisible (uiState after_direct_trigger)"
    by (simp_all add: after_direct_trigger_def trigger_def hasContacts_def Let_def fresh_state_simps)
  have counted: "sent (sosState after_countdown)"
    by (simp add: after_countdown_def countdown_simps fresh_state_simps)
  from cancel_after_sent [of after_direct_trigger] cancel_after_sent [of after_countdown]
    direct counted
  show ?thesis by simp
qed

end
